theory Spec2Isabelle
  imports Main
begin

section \<open>The text-to-speech conversion handler\<close>

text \<open>
  A shallow embedding of the two \<open>POST /convert\<close> handlers of the repository: the one
  that returns a JSON reference to the stored audio (source lines 117--208 of the file
  that also defines the STT and voice-listing routes) and the older one of
  \<open>server.js\<close> (lines 49--124), which streams the audio and removes it afterwards.

  The handlers are sequences of effects, so the model threads a world (the file system
  and the console) through them. What the external packages do (the gtts package, the
  edge-tts package, the clock, \<open>fs.promises.writeFile\<close>, \<open>res.sendFile\<close>) is not code
  of the repository: their outcomes are fields of an environment record.
\<close>

subsection \<open>JavaScript values\<close>

type_synonym path = string
type_synonym bytes = string

text \<open>
  The value of \<open>table[key] || key\<close> is not always a string: an object literal inherits
  the members of \<open>Object.prototype\<close>, so a look-up with one of their names yields a
  function (or, for \<open>__proto__\<close>, the prototype object). Such a value is truthy and is
  not a string.
\<close>

datatype js_value = JString string | JInherited string

definition object_prototype_keys :: "string list" where
  "object_prototype_keys =
     [''constructor'', ''__proto__'', ''hasOwnProperty'', ''isPrototypeOf'',
      ''propertyIsEnumerable'', ''toLocaleString'', ''toString'', ''valueOf'',
      ''__defineGetter__'', ''__defineSetter__'', ''__lookupGetter__'',
      ''__lookupSetter__'']"

text \<open>\<open>obj[key]\<close> for an object literal with string values: own properties first, then
  the prototype; \<open>None\<close> is \<open>undefined\<close>.\<close>

definition js_get :: "(string \<times> string) list \<Rightarrow> string \<Rightarrow> js_value option" where
  "js_get obj key =
     (case map_of obj key of
        Some v \<Rightarrow> Some (JString v)
      | None \<Rightarrow> if key \<in> set object_prototype_keys then Some (JInherited key) else None)"

text \<open>\<open>field || dflt\<close> for a form field: \<open>undefined\<close> and the empty string are falsy.\<close>

fun js_or :: "string option \<Rightarrow> string \<Rightarrow> string" where
  "js_or None d = d"
| "js_or (Some s) d = (if s = [] then d else s)"

text \<open>\<open>v || dflt\<close> for the result of a table look-up.\<close>

fun js_value_or :: "js_value option \<Rightarrow> string \<Rightarrow> js_value" where
  "js_value_or None d = JString d"
| "js_value_or (Some (JString s)) d = (if s = [] then JString d else JString s)"
| "js_value_or (Some (JInherited k)) d = JInherited k"

text \<open>
  \<open>String.prototype.toLowerCase\<close> on the letters \<open>A\<close>--\<open>Z\<close>. A \<open>char\<close> is a byte, and no
  byte of a character outside ASCII is changed: no such character lower-cases to one of
  the letters of \<open>edge\<close>, the only string the result is compared with.
\<close>

definition lower_char :: "char \<Rightarrow> char" where
  "lower_char c =
     (case map_of (zip ''ABCDEFGHIJKLMNOPQRSTUVWXYZ'' ''abcdefghijklmnopqrstuvwxyz'') c of
        Some l \<Rightarrow> l
      | None \<Rightarrow> c)"

definition toLowerCase :: "string \<Rightarrow> string" where
  "toLowerCase s = map lower_char s"

text \<open>The decimal digits of \<open>Date.now()\<close> as a template literal prints them.\<close>

function decimal :: "nat \<Rightarrow> string" where
  "decimal n =
     (if n < 10 then [''0123456789'' ! n]
      else decimal (n div 10) @ [''0123456789'' ! (n mod 10)])"
  by pat_completeness auto
termination
  by (relation "measure (\<lambda>n. n)") auto

declare decimal.simps [simp del]

text \<open>
  The number a string of decimal digits denotes. The handler has no such function; it
  serves to state that \<open>decimal\<close> prints its argument.
\<close>

definition digit_value :: "char \<Rightarrow> nat" where
  "digit_value c = length (takeWhile (\<lambda>d. d \<noteq> c) ''0123456789'')"

definition digits_value :: "string \<Rightarrow> nat" where
  "digits_value ds = foldl (\<lambda>a c. 10 * a + digit_value c) 0 ds"

subsection \<open>The request, the world and the environment\<close>

text \<open>
  The fields of the request the handler reads. \<open>req_file\<close> is \<open>req.file.filename\<close> when
  the upload middleware stored a file, and \<open>None\<close> when \<open>req.file\<close> is undefined; the
  other fields are the form fields of \<open>req.body\<close>, \<open>None\<close> when undefined.
\<close>

record request =
  req_file :: "string option"
  body_textInput :: "string option"
  body_engine :: "string option"
  body_voice :: "string option"
  body_gender :: "string option"

text \<open>What the handler prints with \<open>console.log\<close> and \<open>console.error\<close>.\<close>

datatype log_entry =
    LogStarting nat string string js_value path
  | LogUsingEdge string
  | LogEdgeSaved path
  | LogGttsSaveError string
  | LogGttsSaved path
  | LogReturningUrl string
  | LogConversionError string
  | LogErrorSendingFile string
  | LogErrorCleaningUp string

record world =
  files :: "path \<rightharpoonup> bytes"
  console :: "log_entry list"

text \<open>
  The responses: \<open>res.status(n).send(html)\<close>, \<open>res.status(n).json({success: true, url,
  fileName})\<close> and \<open>res.sendFile(path)\<close>.
\<close>

datatype response =
    Send nat string
  | JsonSuccess nat string string
  | SendFile path

fun status :: "response \<Rightarrow> nat" where
  "status (Send n _) = n"
| "status (JsonSuccess n _ _) = n"
| "status (SendFile _) = 200"

text \<open>
  A write that fails reports its cause and may leave a part of the data at the path.
  \<open>new gtts(text, voice)\<close> may throw. \<open>save(path, callback)\<close> calls back with an error
  or without one, and the handler looks at nothing else: what the package has put at
  the path by then is its own business, so each outcome of \<open>save\<close> carries the bytes
  the package wrote there, \<open>None\<close> when it wrote nothing.
\<close>

datatype failure = Failure string "bytes option"

datatype gtts_outcome =
    GttsThrows string
  | GttsSaveFailed string "bytes option"
  | GttsSaved "bytes option"

record env =
  dirname :: string
  now :: nat
  gtts :: "string \<Rightarrow> js_value \<Rightarrow> path \<Rightarrow> gtts_outcome"
  require_edgeTTS :: "string option"
  edgeTTS_synthesize :: "string \<Rightarrow> string \<Rightarrow> string + bytes"
  writeFile :: "path \<Rightarrow> bytes \<Rightarrow> failure option"
  sendFile :: "path \<Rightarrow> string option"

definition say :: "log_entry \<Rightarrow> world \<Rightarrow> world" where
  "say l w = w\<lparr>console := console w @ [l]\<rparr>"

definition leave :: "path \<Rightarrow> bytes option \<Rightarrow> world \<Rightarrow> world" where
  "leave p part w = (case part of None \<Rightarrow> w | Some b \<Rightarrow> w\<lparr>files := (files w)(p \<mapsto> b)\<rparr>)"

definition readFile :: "world \<Rightarrow> path \<Rightarrow> string + bytes" where
  "readFile w p = (case files w p of None \<Rightarrow> Inl ''ENOENT'' | Some b \<Rightarrow> Inr b)"

definition unlink :: "world \<Rightarrow> path \<Rightarrow> string + world" where
  "unlink w p =
     (case files w p of
        None \<Rightarrow> Inl ''ENOENT''
      | Some _ \<Rightarrow> Inr (w\<lparr>files := (files w)(p := None)\<rparr>))"

definition path_join :: "path \<Rightarrow> string \<Rightarrow> path" where
  "path_join d f = d @ ''/'' @ f"

definition uploadDir :: "env \<Rightarrow> path" where
  "uploadDir e = path_join (dirname e) ''uploads''"

definition audioDir :: "env \<Rightarrow> path" where
  "audioDir e = path_join (path_join (dirname e) ''public'') ''audio''"

text \<open>\<open>req.file.path\<close>: the disk storage joins its destination and the file name.\<close>

definition file_path :: "env \<Rightarrow> string \<Rightarrow> path" where
  "file_path e filename = path_join (uploadDir e) filename"

subsection \<open>The voice tables (lines 136--159)\<close>

definition maleVoices :: "(string \<times> string) list" where
  "maleVoices =
     [(''en'', ''en-us''), (''en-uk'', ''en-uk''), (''en-au'', ''en-au''),
      (''hi'', ''hi''), (''fr'', ''fr''), (''es'', ''es'')]"

definition femaleVoices :: "(string \<times> string) list" where
  "femaleVoices =
     [(''en'', ''en''), (''en-uk'', ''en-uk''), (''en-au'', ''en-au''),
      (''hi'', ''hi''), (''fr'', ''fr''), (''es'', ''es'')]"

text \<open>The value of \<open>voiceCode\<close> after line 159, for a voice \<open>v\<close> and a gender \<open>g\<close>.\<close>

definition voiceCode :: "string \<Rightarrow> string \<Rightarrow> js_value" where
  "voiceCode v g =
     (if g = ''male'' then js_value_or (js_get maleVoices v) v
      else if g = ''female'' then js_value_or (js_get femaleVoices v) v
      else JString v)"

subsection \<open>The handler that returns a URL\<close>

datatype 'a step = Next 'a | Return response | Throw string

text \<open>The two pages the handler sends with an error status (lines 127 and 206).\<close>

definition no_input_page :: string where
  \<open>no_input_page =
     ''<script>alert("No text or file provided"); window.history.back();</script>''\<close>

definition processing_error_page :: string where
  \<open>processing_error_page =
     ''<script>alert("Error processing your request"); window.history.back();</script>''\<close>

text \<open>Lines 131--133: the engine, the voice and the gender, with their defaults.\<close>

definition engine :: "request \<Rightarrow> string" where
  "engine r = toLowerCase (js_or (body_engine r) ''gtts'')"

definition selectedVoice :: "request \<Rightarrow> string" where
  "selectedVoice r = js_or (body_voice r) ''en''"

definition gender :: "request \<Rightarrow> string" where
  "gender r = js_or (body_gender r) ''male''"

text \<open>Lines 119--128: the text comes from the uploaded file, else from the form.\<close>

definition readInput :: "env \<Rightarrow> world \<Rightarrow> request \<Rightarrow> string step \<times> world" where
  \<open>readInput e w r =
     (case req_file r of
        Some filename \<Rightarrow>
          (case readFile w (file_path e filename) of
             Inl err \<Rightarrow> (Throw err, w)
           | Inr textToConvert \<Rightarrow>
               (case unlink w (file_path e filename) of
                  Inl err \<Rightarrow> (Throw err, w)
                | Inr w' \<Rightarrow> (Next textToConvert, w')))
      | None \<Rightarrow>
          (case body_textInput r of
             Some t \<Rightarrow>
               if t \<noteq> [] then (Next t, w)
               else (Return (Send 400 no_input_page), w)
           | None \<Rightarrow> (Return (Send 400 no_input_page), w)))\<close>

text \<open>Lines 204--207: the \<open>catch\<close> block.\<close>

definition conversionError :: "string \<Rightarrow> world \<Rightarrow> response \<times> world" where
  "conversionError err w = (Send 500 processing_error_page, say (LogConversionError err) w)"

definition outputFileName :: "env \<Rightarrow> string" where
  "outputFileName e = ''speech-'' @ decimal (now e) @ ''.mp3''"

definition outputPath :: "env \<Rightarrow> path" where
  "outputPath e = path_join (audioDir e) (outputFileName e)"

text \<open>Lines 173--178; the result is the error thrown, if any, and the world left.\<close>

definition edgeBranch :: "env \<Rightarrow> request \<Rightarrow> string \<Rightarrow> world \<Rightarrow> string option \<times> world" where
  "edgeBranch e r textToConvert w =
     (case require_edgeTTS e of
        Some err \<Rightarrow> (Some err, w)
      | None \<Rightarrow>
          let voice = js_or (body_voice r) ''en-US-AriaNeural'';
              w1 = say (LogUsingEdge voice) w
          in (case edgeTTS_synthesize e textToConvert voice of
                Inl err \<Rightarrow> (Some err, w1)
              | Inr audio \<Rightarrow>
                  (case writeFile e (outputPath e) audio of
                     Some (Failure err part) \<Rightarrow> (Some err, leave (outputPath e) part w1)
                   | None \<Rightarrow>
                       (None, say (LogEdgeSaved (outputPath e))
                                (w1\<lparr>files := (files w1)(outputPath e \<mapsto> audio)\<rparr>)))))"

text \<open>
  Lines 181--192. The handler writes nothing here: the file at the output path is what
  the package left, and a callback without an error is taken as success.
\<close>

definition gttsBranch :: "env \<Rightarrow> js_value \<Rightarrow> string \<Rightarrow> world \<Rightarrow> string option \<times> world" where
  "gttsBranch e voice textToConvert w =
     (case gtts e textToConvert voice (outputPath e) of
        GttsThrows err \<Rightarrow> (Some err, w)
      | GttsSaveFailed err part \<Rightarrow>
          (Some err, say (LogGttsSaveError err) (leave (outputPath e) part w))
      | GttsSaved saved \<Rightarrow>
          (None, say (LogGttsSaved (outputPath e)) (leave (outputPath e) saved w)))"

text \<open>Lines 172--193: the engine is chosen by comparing with \<open>'edge'\<close>.\<close>

definition dispatch :: "env \<Rightarrow> request \<Rightarrow> string \<Rightarrow> world \<Rightarrow> string option \<times> world" where
  "dispatch e r textToConvert w =
     (if engine r = ''edge'' then edgeBranch e r textToConvert w
      else gttsBranch e (voiceCode (selectedVoice r) (gender r)) textToConvert w)"

text \<open>Lines 130--202, once the text is known.\<close>

definition synthesize :: "env \<Rightarrow> request \<Rightarrow> string \<Rightarrow> world \<Rightarrow> response \<times> world" where
  "synthesize e r textToConvert w =
     (let w1 = say (LogStarting (length textToConvert) (selectedVoice r) (gender r)
                      (voiceCode (selectedVoice r) (gender r)) (outputPath e)) w;
          (thrown, w2) = dispatch e r textToConvert w1
      in case thrown of
           Some err \<Rightarrow> conversionError err w2
         | None \<Rightarrow>
             let publicUrl = ''/audio/'' @ outputFileName e
             in (JsonSuccess 200 publicUrl (outputFileName e),
                 say (LogReturningUrl publicUrl) w2))"

definition convert :: "env \<Rightarrow> world \<Rightarrow> request \<Rightarrow> response \<times> world" where
  "convert e w r =
     (case readInput e w r of
        (Return resp, w') \<Rightarrow> (resp, w')
      | (Throw err, w') \<Rightarrow> conversionError err w'
      | (Next textToConvert, w') \<Rightarrow> synthesize e r textToConvert w')"

subsection \<open>The handler of \<open>server.js\<close>, which streams the audio\<close>

text \<open>
  Lines 49--124 of \<open>server.js\<close>: the same input and voice code, the gtts package only,
  then \<open>res.sendFile\<close>, whose callback removes the audio file once it has been sent.
  \<open>res.sendFile\<close> calls back with an error when there is no file at the path.
\<close>

definition sending_error_page :: string where
  \<open>sending_error_page =
     ''<script>alert("Error sending audio file"); window.history.back();</script>''\<close>

definition convert_server_js :: "env \<Rightarrow> world \<Rightarrow> request \<Rightarrow> response \<times> world" where
  "convert_server_js e w r =
     (case readInput e w r of
        (Return resp, w') \<Rightarrow> (resp, w')
      | (Throw err, w') \<Rightarrow> conversionError err w'
      | (Next textToConvert, w') \<Rightarrow>
          (case gtts e textToConvert (voiceCode (selectedVoice r) (gender r)) (outputPath e) of
             GttsThrows err \<Rightarrow> conversionError err w'
           | GttsSaveFailed err part \<Rightarrow> conversionError err (leave (outputPath e) part w')
           | GttsSaved saved \<Rightarrow>
               (let w1 = leave (outputPath e) saved w'
                in case (if files w1 (outputPath e) = None then Some ''ENOENT''
                         else sendFile e (outputPath e)) of
                     Some err \<Rightarrow>
                       (Send 500 sending_error_page, say (LogErrorSendingFile err) w1)
                   | None \<Rightarrow>
                       (case unlink w1 (outputPath e) of
                          Inl err \<Rightarrow>
                            (SendFile (outputPath e), say (LogErrorCleaningUp err) w1)
                        | Inr w2 \<Rightarrow> (SendFile (outputPath e), w2)))))"

subsection \<open>Concrete requests and environments\<close>

text \<open>
  An environment in which both engines and the write succeed, one in which the gtts
  package fails with a given cause after writing a part of the audio, and one in which
  it calls back without an error and has written nothing.
\<close>

definition env_ok :: env where
  "env_ok =
     \<lparr>dirname = ''/app'', now = 1700000000123,
      gtts = (\<lambda>t v p. GttsSaved (Some (''gtts:'' @ t))),
      require_edgeTTS = None,
      edgeTTS_synthesize = (\<lambda>t v. Inr (''edge:'' @ v @ '':'' @ t)),
      writeFile = (\<lambda>p b. None),
      sendFile = (\<lambda>p. None)\<rparr>"

definition env_gtts_fails :: "string \<Rightarrow> env" where
  "env_gtts_fails cause = env_ok\<lparr>gtts := (\<lambda>t v p. GttsSaveFailed cause (Some ''ID3''))\<rparr>"

definition env_gtts_silent :: env where
  "env_gtts_silent = env_ok\<lparr>gtts := (\<lambda>t v p. GttsSaved None)\<rparr>"

definition world_empty :: world where
  "world_empty = \<lparr>files = Map.empty, console = []\<rparr>"

definition world_collision :: world where
  "world_collision =
     \<lparr>files = [''/app/public/audio/speech-1700000000123.mp3'' \<mapsto> ''earlier audio''],
      console = []\<rparr>"

definition world_upload :: world where
  "world_upload =
     \<lparr>files = [''/app/uploads/1700000000000-note.txt'' \<mapsto> ''from the file''], console = []\<rparr>"

definition req_hello :: request where
  "req_hello =
     \<lparr>req_file = None, body_textInput = Some ''Hello world'', body_engine = Some ''gtts'',
      body_voice = Some ''en'', body_gender = Some ''male''\<rparr>"

definition req_blank :: request where
  "req_blank = req_hello\<lparr>body_textInput := Some ''   ''\<rparr>"

definition req_empty :: request where
  "req_empty = req_hello\<lparr>body_textInput := Some []\<rparr>"

definition req_upload :: request where
  "req_upload = req_hello\<lparr>req_file := Some ''1700000000000-note.txt''\<rparr>"

definition req_edge :: request where
  "req_edge = req_hello\<lparr>body_engine := Some ''edge''\<rparr>"

definition req_EDGE :: request where
  "req_EDGE = req_hello\<lparr>body_engine := Some ''EDGE''\<rparr>"

definition req_unknown_engine :: request where
  "req_unknown_engine = req_hello\<lparr>body_engine := Some ''espeak''\<rparr>"


section \<open>Properties of the handlers\<close>

subsection \<open>Paths and file names\<close>

lemmas path_defs = outputPath_def outputFileName_def audioDir_def uploadDir_def file_path_def path_join_def

lemma decimal_now: "decimal 1700000000123 = ''1700000000123''"
  by (simp add: decimal.simps)

lemma decimal_digits: "decimal n \<noteq> [] \<and> set (decimal n) \<subseteq> set ''0123456789''"
proof (induction n rule: decimal.induct)
  case (1 n)
  show ?case
  proof (cases "n < 10")
    case True
    then have "n \<in> {0,1,2,3,4,5,6,7,8,9}" by auto
    then show ?thesis
      by (subst decimal.simps, subst (2) decimal.simps) (auto simp: True)
  next
    case False
    have "n mod 10 \<in> {0,1,2,3,4,5,6,7,8,9}" by (simp, presburger)
    then have "''0123456789'' ! (n mod 10) \<in> set ''0123456789''" by auto
    with 1 False show ?thesis
      by (subst decimal.simps, subst (2) decimal.simps) auto
  qed
qed

lemma digit_value_digit: "k < 10 \<Longrightarrow> digit_value (''0123456789'' ! k) = k"
proof -
  assume "k < 10"
  then have "k \<in> {0,1,2,3,4,5,6,7,8,9}" by auto
  then show ?thesis by (auto simp: digit_value_def)
qed

lemma digits_value_snoc: "digits_value (ds @ [c]) = 10 * digits_value ds + digit_value c"
  by (simp add: digits_value_def)

lemma digits_value_decimal: "digits_value (decimal n) = n"
proof (induction n rule: decimal.induct)
  case (1 n)
  show ?case
  proof (cases "n < 10")
    case True
    then show ?thesis
      by (subst decimal.simps) (simp add: digits_value_def digit_value_digit)
  next
    case False
    with 1 show ?thesis
      by (subst decimal.simps) (simp add: digits_value_snoc digit_value_digit)
  qed
qed

lemma file_path_neq_outputPath: "file_path e filename \<noteq> outputPath e"
  by (simp add: path_defs)

lemma outputPath_env [simp]:
  "outputPath (e\<lparr>gtts := g\<rparr>) = outputPath e"
  "outputPath (e\<lparr>require_edgeTTS := q\<rparr>) = outputPath e"
  "outputPath (e\<lparr>edgeTTS_synthesize := s\<rparr>) = outputPath e"
  "outputPath (e\<lparr>writeFile := wr\<rparr>) = outputPath e"
  "outputFileName (e\<lparr>gtts := g\<rparr>) = outputFileName e"
  "outputFileName (e\<lparr>require_edgeTTS := q\<rparr>) = outputFileName e"
  "outputFileName (e\<lparr>edgeTTS_synthesize := s\<rparr>) = outputFileName e"
  "outputFileName (e\<lparr>writeFile := wr\<rparr>) = outputFileName e"
  by (simp_all add: path_defs)

subsection \<open>The input stage\<close>

lemma readInput_Next:
  assumes "readInput e w r = (Next t, w1)"
  shows "(req_file r = None \<and> body_textInput r = Some t \<and> t \<noteq> [] \<and> w1 = w) \<or>
         (\<exists>fn. req_file r = Some fn \<and> files w (file_path e fn) = Some t \<and>
               w1 = w\<lparr>files := (files w)(file_path e fn := None)\<rparr>)"
  using assms
  by (auto simp: readInput_def readFile_def unlink_def split: option.splits sum.splits if_splits)

lemma readInput_dom: "readInput e w r = (Next t, w1) \<Longrightarrow> dom (files w1) \<subseteq> dom (files w)"
  by (drule readInput_Next) (auto split: if_splits)

lemma gttsBranch_saved:
  "gtts e t c (outputPath e) = GttsSaved saved \<Longrightarrow>
   gttsBranch e c t w =
     (None, say (LogGttsSaved (outputPath e)) (leave (outputPath e) saved w))"
  by (simp add: gttsBranch_def)

lemma files_say [simp]: "files (say l w) = files w"
  by (simp add: say_def)

lemma console_say [simp]: "console (say l w) = console w @ [l]"
  by (simp add: say_def)

subsection \<open>The concrete environments, evaluated\<close>

lemma env_ok_paths:
  "outputPath env_ok = ''/app/public/audio/speech-1700000000123.mp3''"
  "outputFileName env_ok = ''speech-1700000000123.mp3''"
  "file_path env_ok f = ''/app/uploads/'' @ f"
  "now env_ok = 1700000000123"
  "dirname env_ok = ''/app''"
  by (simp_all add: path_defs env_ok_def decimal_now)

lemma env_ok_fields:
  "gtts env_ok t v p = GttsSaved (Some (''gtts:'' @ t))"
  "require_edgeTTS env_ok = None"
  "edgeTTS_synthesize env_ok t x = Inr (''edge:'' @ x @ '':'' @ t)"
  "writeFile env_ok p b = None"
  "sendFile env_ok p = None"
  by (simp_all add: env_ok_def)

lemma env_gtts_fails_paths:
  "outputPath (env_gtts_fails c) = ''/app/public/audio/speech-1700000000123.mp3''"
  "outputFileName (env_gtts_fails c) = ''speech-1700000000123.mp3''"
  by (simp_all add: path_defs env_gtts_fails_def env_ok_def decimal_now)

lemma env_gtts_fails_fields:
  "gtts (env_gtts_fails c) t v p = GttsSaveFailed c (Some ''ID3'')"
  by (simp add: env_gtts_fails_def)

lemma env_gtts_silent_paths:
  "outputPath env_gtts_silent = ''/app/public/audio/speech-1700000000123.mp3''"
  "outputFileName env_gtts_silent = ''speech-1700000000123.mp3''"
  "now env_gtts_silent = 1700000000123"
  "dirname env_gtts_silent = ''/app''"
  by (simp_all add: path_defs env_gtts_silent_def env_ok_def decimal_now)

lemma env_gtts_silent_fields:
  "gtts env_gtts_silent t v p = GttsSaved None"
  by (simp add: env_gtts_silent_def)

lemmas example_facts = env_ok_paths env_ok_fields env_gtts_fails_paths env_gtts_fails_fields
  env_gtts_silent_paths env_gtts_silent_fields
  world_empty_def world_upload_def world_collision_def req_hello_def req_blank_def
  req_empty_def req_upload_def req_edge_def req_EDGE_def req_unknown_engine_def

lemmas handler_defs = convert_def synthesize_def dispatch_def readInput_def gttsBranch_def
  edgeBranch_def conversionError_def say_def leave_def readFile_def unlink_def engine_def
  selectedVoice_def gender_def toLowerCase_def lower_char_def Let_def

lemmas voice_defs = voiceCode_def js_get_def maleVoices_def femaleVoices_def
  object_prototype_keys_def

subsection \<open>C1: a conversion with the gtts engine that calls back without an error\<close>

text \<open>
  Claim C1, as the code has it. Take a request whose lower-cased engine is not \<open>edge\<close>
  and whose text is a non-empty text field (with no file) or the content of an
  uploaded file, and let the gtts package call back without an error. Then the handler
  answers 200 with \<open>{url, fileName}\<close>, where \<open>fileName\<close> is \<open>speech-\<close>, the decimal
  digits of \<open>Date.now()\<close> and \<open>.mp3\<close>, and \<open>url\<close> is \<open>/audio/\<close> followed by \<open>fileName\<close>.
  The handler writes no file on this path: the files are those the input stage left,
  with the file of that name in the audio directory holding what the package saved,
  if it saved anything. So the conversion makes exactly one new file when the package
  wrote the file and no file of that name existed before, and none otherwise.
\<close>

theorem convert_gtts_success:
  assumes "engine r \<noteq> ''edge''"
    and "req_file r = None \<and> body_textInput r = Some text \<and> text \<noteq> [] \<and> w1 = w
         \<or> (\<exists>filename. req_file r = Some filename
               \<and> files w (file_path e filename) = Some text
               \<and> w1 = w\<lparr>files := (files w)(file_path e filename := None)\<rparr>)"
    and "gtts e text (voiceCode (selectedVoice r) (gender r)) (outputPath e) = GttsSaved saved"
  shows "fst (convert e w r) =
           JsonSuccess 200 (''/audio/speech-'' @ decimal (now e) @ ''.mp3'')
             (''speech-'' @ decimal (now e) @ ''.mp3'')
    \<and> set (decimal (now e)) \<subseteq> set ''0123456789'' \<and> digits_value (decimal (now e)) = now e
    \<and> outputPath e = dirname e @ ''/public/audio/speech-'' @ decimal (now e) @ ''.mp3''
    \<and> files (snd (convert e w r)) =
          (case saved of None \<Rightarrow> files w1 | Some audio \<Rightarrow> (files w1)(outputPath e \<mapsto> audio))
    \<and> dom (files (snd (convert e w r))) - dom (files w) =
          (if saved \<noteq> None \<and> outputPath e \<notin> dom (files w) then {outputPath e} else {})"
proof -
  have ri: "readInput e w r = (Next text, w1)"
    using assms(2) by (auto simp: readInput_def readFile_def unlink_def)
  have sub: "dom (files w1) \<subseteq> dom (files w)"
    using assms(2) by (auto split: if_splits)
  have conv: "convert e w r =
      (JsonSuccess 200 (''/audio/'' @ outputFileName e) (outputFileName e),
       say (LogReturningUrl (''/audio/'' @ outputFileName e))
         (say (LogGttsSaved (outputPath e))
           (leave (outputPath e) saved
             (say (LogStarting (length text) (selectedVoice r) (gender r)
                (voiceCode (selectedVoice r) (gender r)) (outputPath e)) w1))))"
    using assms(1,3) ri
    by (simp add: convert_def synthesize_def dispatch_def gttsBranch_saved Let_def)
  have fs: "files (snd (convert e w r)) =
          (case saved of None \<Rightarrow> files w1 | Some audio \<Rightarrow> (files w1)(outputPath e \<mapsto> audio))"
    by (simp add: conv leave_def say_def split: option.splits)
  have new: "dom (files (snd (convert e w r))) - dom (files w) =
          (if saved \<noteq> None \<and> outputPath e \<notin> dom (files w) then {outputPath e} else {})"
    using sub by (auto simp: fs split: option.splits)
  have digits: "set (decimal (now e)) \<subseteq> set ''0123456789''"
    using decimal_digits [of "now e"] by blast
  show ?thesis
    using fs new digits
    by (simp add: conv digits_value_decimal outputPath_def outputFileName_def audioDir_def
        path_join_def)
qed

text \<open>The request \<open>{text: "Hello world", engine: "gtts", voice: "en", gender: "male"}\<close>.\<close>

theorem convert_gtts_success_witness:
  "engine req_hello \<noteq> ''edge''
   \<and> req_file req_hello = None \<and> body_textInput req_hello = Some ''Hello world''
   \<and> gtts env_ok ''Hello world'' (voiceCode (selectedVoice req_hello) (gender req_hello))
        (outputPath env_ok) = GttsSaved (Some ''gtts:Hello world'')
   \<and> fst (convert env_ok world_empty req_hello) =
       JsonSuccess 200 ''/audio/speech-1700000000123.mp3'' ''speech-1700000000123.mp3''
   \<and> files (snd (convert env_ok world_empty req_hello)) =
       [''/app/public/audio/speech-1700000000123.mp3'' \<mapsto> ''gtts:Hello world'']
   \<and> dom (files (snd (convert env_ok world_empty req_hello))) - dom (files world_empty) =
       {''/app/public/audio/speech-1700000000123.mp3''}"
proof -
  have h1: "engine req_hello \<noteq> ''edge''"
    by (simp add: engine_def req_hello_def toLowerCase_def lower_char_def)
  have h2: "req_file req_hello = None \<and> body_textInput req_hello = Some ''Hello world''
      \<and> ''Hello world'' \<noteq> [] \<and> world_empty = world_empty
      \<or> (\<exists>filename. req_file req_hello = Some filename
            \<and> files world_empty (file_path env_ok filename) = Some ''Hello world''
            \<and> world_empty = world_empty\<lparr>files := (files world_empty)(file_path env_ok filename := None)\<rparr>)"
    by (simp add: req_hello_def)
  have h3: "gtts env_ok ''Hello world'' (voiceCode (selectedVoice req_hello) (gender req_hello))
              (outputPath env_ok) = GttsSaved (Some ''gtts:Hello world'')"
    by (simp add: env_ok_fields)
  have f: "req_file req_hello = None" "body_textInput req_hello = Some ''Hello world''"
    by (simp_all add: req_hello_def)
  show ?thesis
    using convert_gtts_success [OF h1 h2 h3] h1 h3 f
    by (simp add: env_ok_paths decimal_now world_empty_def)
qed

text \<open>
  Claim C1 as stated fails in two ways. When a file of the same name is already in the
  audio directory (the same millisecond), the conversion succeeds and makes no new
  file. When the gtts package calls back without an error and has written nothing, the
  conversion succeeds and the url names a file that does not exist.
\<close>

theorem convert_gtts_new_file_counterexample:
  "fst (convert env_ok world_collision req_hello) =
     JsonSuccess 200 ''/audio/speech-1700000000123.mp3'' ''speech-1700000000123.mp3''
   \<and> dom (files (snd (convert env_ok world_collision req_hello))) - dom (files world_collision)
       = {}
   \<and> fst (convert env_gtts_silent world_empty req_hello) =
     JsonSuccess 200 ''/audio/speech-1700000000123.mp3'' ''speech-1700000000123.mp3''
   \<and> files (snd (convert env_gtts_silent world_empty req_hello))
       ''/app/public/audio/speech-1700000000123.mp3'' = None"
  by (simp add: handler_defs example_facts)

subsection \<open>C2: no text and no file\<close>


lemma status_synthesize: "status (fst (synthesize e r t w)) \<noteq> 400"
  by (simp add: synthesize_def conversionError_def Let_def split: prod.splits option.splits)

text \<open>
  Claim C2, as the code has it. The handler does not trim: it tests the text field for
  truthiness. Without an uploaded file, a text field that is absent or the empty
  string is answered with status 400 and the page "No text or file provided", and the
  world is left as it was (no file, no console line); and status 400 is given in
  exactly these cases, so a text of white space only goes on to the synthesis.
\<close>

theorem convert_no_input:
  assumes "req_file r = None"
  shows "(body_textInput r = None \<or> body_textInput r = Some [] \<longrightarrow>
            convert e w r = (Send 400 no_input_page, w))
       \<and> (status (fst (convert e w r)) = 400 \<longleftrightarrow>
            body_textInput r = None \<or> body_textInput r = Some [])"
proof (cases "body_textInput r")
  case None
  with assms show ?thesis by (simp add: convert_def readInput_def)
next
  case (Some t)
  show ?thesis
  proof (cases "t = []")
    case True
    with Some assms show ?thesis by (simp add: convert_def readInput_def)
  next
    case False
    with Some assms have "convert e w r = synthesize e r t w"
      by (simp add: convert_def readInput_def)
    with Some False show ?thesis by (simp add: status_synthesize)
  qed
qed

text \<open>The request with the empty text field.\<close>

theorem convert_no_input_witness:
  "req_file req_empty = None \<and> body_textInput req_empty = Some []
   \<and> convert env_ok world_empty req_empty = (Send 400 no_input_page, world_empty)
   \<and> status (fst (convert env_ok world_empty req_empty)) = 400"
proof -
  have h: "req_file req_empty = None" and t: "body_textInput req_empty = Some []"
    by (simp_all add: req_empty_def req_hello_def)
  from convert_no_input [OF h, of env_ok world_empty] h t show ?thesis by simp
qed

text \<open>
  Claim C2 as stated fails on a text of three spaces with no file: where the gtts
  package saves what it is given, the answer is 200 and an audio file is created.
\<close>

theorem convert_blank_text_counterexample:
  "req_file req_blank = None \<and> body_textInput req_blank = Some ''   ''
   \<and> fst (convert env_ok world_empty req_blank) =
       JsonSuccess 200 ''/audio/speech-1700000000123.mp3'' ''speech-1700000000123.mp3''
   \<and> files (snd (convert env_ok world_empty req_blank))
       ''/app/public/audio/speech-1700000000123.mp3'' = Some ''gtts:   ''"
  by (simp add: handler_defs example_facts)

subsection \<open>C3: the voice tables\<close>

text \<open>
  Claim C3 at the voice \<open>constructor\<close> with the gender \<open>male\<close>. The name is not a key of
  the male table, yet \<open>maleVoices['constructor']\<close> is the function every object
  inherits, which is truthy: the voice code is that function and not the string.
\<close>

theorem voiceCode_inherited_key:
  "map_of maleVoices ''constructor'' = None
   \<and> voiceCode ''constructor'' ''male'' = JInherited ''constructor''
   \<and> voiceCode ''constructor'' ''male'' \<noteq> JString ''constructor''"
  by (simp add: voice_defs)

text \<open>
  The listed voices resolve as the tables say, and a voice that is neither listed nor
  the name of an inherited member is passed through.
\<close>

lemma voiceCode_listed:
  "voiceCode ''en'' ''male'' = JString ''en-us''"
  "voiceCode ''en'' ''female'' = JString ''en''"
  "voiceCode ''hi'' ''female'' = JString ''hi''"
  "voiceCode ''xx'' ''male'' = JString ''xx''"
  "v \<in> {''en-uk'', ''en-au'', ''hi'', ''fr'', ''es''} \<Longrightarrow> g \<in> {''male'', ''female''} \<Longrightarrow>
     voiceCode v g = JString v"
  by (auto simp: voice_defs)

lemma voiceCode_unlisted:
  assumes "v \<notin> fst ` set maleVoices" and "v \<notin> set object_prototype_keys"
  shows "voiceCode v g = JString v"
proof -
  have "fst ` set femaleVoices = fst ` set maleVoices"
    by (simp add: maleVoices_def femaleVoices_def)
  with assms have "map_of maleVoices v = None" "map_of femaleVoices v = None"
    by (simp_all add: map_of_eq_None_iff)
  with assms(2) show ?thesis by (simp add: voiceCode_def js_get_def)
qed

subsection \<open>C4: the engine defaults to gtts\<close>

lemma readInput_engine [simp]: "readInput e w (r\<lparr>body_engine := x\<rparr>) = readInput e w r"
  by (simp add: readInput_def split: option.splits)

lemma readInput_gender [simp]: "readInput e w (r\<lparr>body_gender := x\<rparr>) = readInput e w r"
  by (simp add: readInput_def split: option.splits)

lemma readInput_env [simp]:
  "readInput (e\<lparr>gtts := g\<rparr>) w r = readInput e w r"
  "readInput (e\<lparr>require_edgeTTS := q\<rparr>) w r = readInput e w r"
  "readInput (e\<lparr>edgeTTS_synthesize := s\<rparr>) w r = readInput e w r"
  "readInput (e\<lparr>writeFile := wr\<rparr>) w r = readInput e w r"
  by (simp_all add: readInput_def path_defs split: option.splits sum.splits)

lemma gttsBranch_env [simp]:
  "gttsBranch (e\<lparr>require_edgeTTS := q\<rparr>) c t w = gttsBranch e c t w"
  "gttsBranch (e\<lparr>edgeTTS_synthesize := s\<rparr>) c t w = gttsBranch e c t w"
  "gttsBranch (e\<lparr>writeFile := wr\<rparr>) c t w = gttsBranch e c t w"
  by (simp_all add: gttsBranch_def split: gtts_outcome.splits)

lemma edgeBranch_env [simp]: "edgeBranch (e\<lparr>gtts := g\<rparr>) r t w = edgeBranch e r t w"
  by (simp add: edgeBranch_def Let_def split: option.splits sum.splits failure.splits)





subsection \<open>The dispatch: what is thrown and what is left on disk\<close>

lemma edgeBranch_gender [simp]:
  "edgeBranch e (r\<lparr>body_gender := x\<rparr>) t w = edgeBranch e r t w"
  by (simp add: edgeBranch_def split: option.splits)

lemma edgeBranch_console:
  "fst (edgeBranch e r t (w\<lparr>console := c\<rparr>)) = fst (edgeBranch e r t w)
   \<and> files (snd (edgeBranch e r t (w\<lparr>console := c\<rparr>))) = files (snd (edgeBranch e r t w))"
  by (simp add: edgeBranch_def Let_def say_def leave_def
      split: option.splits sum.splits failure.splits)

lemma gttsBranch_console:
  "fst (gttsBranch e v t (w\<lparr>console := c\<rparr>)) = fst (gttsBranch e v t w)
   \<and> files (snd (gttsBranch e v t (w\<lparr>console := c\<rparr>))) = files (snd (gttsBranch e v t w))"
  by (simp add: gttsBranch_def say_def leave_def split: gtts_outcome.splits option.splits)

lemma dispatch_console:
  "fst (dispatch e r t (w\<lparr>console := c\<rparr>)) = fst (dispatch e r t w)"
  "files (snd (dispatch e r t (w\<lparr>console := c\<rparr>))) = files (snd (dispatch e r t w))"
  by (simp_all add: dispatch_def edgeBranch_console gttsBranch_console)

lemma dispatch_say [simp]:
  "fst (dispatch e r t (say l w)) = fst (dispatch e r t w)"
  "files (snd (dispatch e r t (say l w))) = files (snd (dispatch e r t w))"
  by (simp_all add: say_def dispatch_console)

lemma synthesize_response:
  "fst (synthesize e r t w) =
     (case fst (dispatch e r t w) of
        Some err \<Rightarrow> Send 500 processing_error_page
      | None \<Rightarrow> JsonSuccess 200 (''/audio/'' @ outputFileName e) (outputFileName e))"
proof -
  obtain th w2 where d:
    "dispatch e r t (say (LogStarting (length t) (selectedVoice r) (gender r)
        (voiceCode (selectedVoice r) (gender r)) (outputPath e)) w) = (th, w2)"
    by (cases "dispatch e r t (say (LogStarting (length t) (selectedVoice r) (gender r)
        (voiceCode (selectedVoice r) (gender r)) (outputPath e)) w)")
  have "fst (dispatch e r t w) = th"
    using dispatch_say(1) [of e r t _ w] d by (metis fst_conv)
  then show ?thesis
    by (simp add: synthesize_def Let_def d conversionError_def split: option.splits)
qed

lemma synthesize_files:
  "files (snd (synthesize e r t w)) = files (snd (dispatch e r t w))"
proof -
  obtain th w2 where d:
    "dispatch e r t (say (LogStarting (length t) (selectedVoice r) (gender r)
        (voiceCode (selectedVoice r) (gender r)) (outputPath e)) w) = (th, w2)"
    by (cases "dispatch e r t (say (LogStarting (length t) (selectedVoice r) (gender r)
        (voiceCode (selectedVoice r) (gender r)) (outputPath e)) w)")
  have "files (snd (dispatch e r t w)) = files w2"
    using dispatch_say(2) [of e r t _ w] d by (metis snd_conv)
  then show ?thesis
    by (simp add: synthesize_def Let_def d conversionError_def split: option.splits)
qed

lemma synthesize_console_error:
  assumes "fst (dispatch e r t w) = Some cause"
  shows "last (console (snd (synthesize e r t w))) = LogConversionError cause"
proof -
  obtain th w2 where d:
    "dispatch e r t (say (LogStarting (length t) (selectedVoice r) (gender r)
        (voiceCode (selectedVoice r) (gender r)) (outputPath e)) w) = (th, w2)"
    by (cases "dispatch e r t (say (LogStarting (length t) (selectedVoice r) (gender r)
        (voiceCode (selectedVoice r) (gender r)) (outputPath e)) w)")
  have "fst (dispatch e r t w) = th"
    using dispatch_say(1) [of e r t _ w] d by (metis fst_conv)
  with assms show ?thesis
    by (simp add: synthesize_def Let_def d conversionError_def)
qed

lemma dispatch_files:
  "\<exists>part. files (snd (dispatch e r t w)) = files (leave (outputPath e) part w)"
proof (cases "engine r = ''edge''")
  case True
  show ?thesis
  proof (cases "require_edgeTTS e")
    case (Some err)
    with True have "dispatch e r t w = (Some err, w)"
      by (simp add: dispatch_def edgeBranch_def)
    then show ?thesis by (intro exI [of _ None]) (simp add: leave_def)
  next
    case None
    show ?thesis
    proof (cases "edgeTTS_synthesize e t (js_or (body_voice r) ''en-US-AriaNeural'')")
      case (Inl err)
      with True None show ?thesis
        by (intro exI [of _ None]) (simp add: dispatch_def edgeBranch_def leave_def Let_def)
    next
      case (Inr audio)
      show ?thesis
      proof (cases "writeFile e (outputPath e) audio")
        case wnone: None
        with True None Inr show ?thesis
          by (intro exI [of _ "Some audio"])
             (simp add: dispatch_def edgeBranch_def leave_def Let_def)
      next
        case (Some f)
        obtain err part where "f = Failure err part" by (cases f)
        with True None Inr Some show ?thesis
          by (intro exI [of _ part])
             (simp add: dispatch_def edgeBranch_def leave_def Let_def split: option.splits)
      qed
    qed
  qed
next
  case False
  show ?thesis
  proof (cases "gtts e t (voiceCode (selectedVoice r) (gender r)) (outputPath e)")
    case (GttsThrows err)
    with False show ?thesis
      by (intro exI [of _ None]) (simp add: dispatch_def gttsBranch_def leave_def)
  next
    case (GttsSaveFailed err part)
    with False show ?thesis
      by (intro exI [of _ part]) (simp add: dispatch_def gttsBranch_def leave_def)
  next
    case (GttsSaved saved)
    with False show ?thesis
      by (intro exI [of _ saved]) (simp add: dispatch_def gttsBranch_def leave_def)
  qed
qed

lemma leave_other: "p \<noteq> q \<Longrightarrow> files (leave q part w) p = files w p"
  by (simp add: leave_def split: option.splits)


lemma readInput_Return:
  "readInput e w r = (Return resp, w') \<Longrightarrow> resp = Send 400 no_input_page \<and> w' = w"
  by (auto simp: readInput_def split: option.splits sum.splits if_splits)

lemma engine_gender [simp]: "engine (r\<lparr>body_gender := x\<rparr>) = engine r"
  by (simp add: engine_def)

lemma dispatch_edge: "engine r = ''edge'' \<Longrightarrow> dispatch e r t w = edgeBranch e r t w"
  by (simp add: dispatch_def)

lemma edgeBranch_thrown:
  "fst (edgeBranch e r t w) =
     (case require_edgeTTS e of
        Some err \<Rightarrow> Some err
      | None \<Rightarrow>
          (case edgeTTS_synthesize e t (js_or (body_voice r) ''en-US-AriaNeural'') of
             Inl err \<Rightarrow> Some err
           | Inr audio \<Rightarrow>
               (case writeFile e (outputPath e) audio of
                  Some (Failure err part) \<Rightarrow> Some err
                | None \<Rightarrow> None)))"
  by (simp add: edgeBranch_def Let_def split: option.splits sum.splits failure.splits)

subsection \<open>C5: the edge engine and the voice tables\<close>

text \<open>
  Claim C5, as the code has it. For a request whose lower-cased engine is \<open>edge\<close>, the
  answer is decided by the edge-tts package called with the text and with the voice
  field as it is, or \<open>en-US-AriaNeural\<close> when the field is absent or empty; the gender
  changes neither the answer nor the files, and the gtts package plays no part. The
  voice code is still computed from the tables before the dispatch, and printed.
\<close>

theorem convert_edge_voice:
  assumes "engine r = ''edge''" and "readInput e w r = (Next text, w1)"
  shows "fst (convert e w r) =
           (case require_edgeTTS e of
              Some err \<Rightarrow> Send 500 processing_error_page
            | None \<Rightarrow>
                (case edgeTTS_synthesize e text (js_or (body_voice r) ''en-US-AriaNeural'') of
                   Inl err \<Rightarrow> Send 500 processing_error_page
                 | Inr audio \<Rightarrow>
                     (case writeFile e (outputPath e) audio of
                        Some f \<Rightarrow> Send 500 processing_error_page
                      | None \<Rightarrow>
                          JsonSuccess 200 (''/audio/'' @ outputFileName e) (outputFileName e))))
       \<and> fst (convert e w (r\<lparr>body_gender := g\<rparr>)) = fst (convert e w r)
       \<and> files (snd (convert e w (r\<lparr>body_gender := g\<rparr>))) = files (snd (convert e w r))
       \<and> convert (e\<lparr>gtts := k\<rparr>) w r = convert e w r"
proof -
  have c: "convert e w r = synthesize e r text w1"
    using assms(2) by (simp add: convert_def)
  have cg: "convert e w (r\<lparr>body_gender := g\<rparr>) = synthesize e (r\<lparr>body_gender := g\<rparr>) text w1"
    using assms(2) by (simp add: convert_def)
  have ck: "convert (e\<lparr>gtts := k\<rparr>) w r = synthesize (e\<lparr>gtts := k\<rparr>) r text w1"
    using assms(2) by (simp add: convert_def)
  have resp: "fst (synthesize e r text w1) =
           (case require_edgeTTS e of
              Some err \<Rightarrow> Send 500 processing_error_page
            | None \<Rightarrow>
                (case edgeTTS_synthesize e text (js_or (body_voice r) ''en-US-AriaNeural'') of
                   Inl err \<Rightarrow> Send 500 processing_error_page
                 | Inr audio \<Rightarrow>
                     (case writeFile e (outputPath e) audio of
                        Some f \<Rightarrow> Send 500 processing_error_page
                      | None \<Rightarrow>
                          JsonSuccess 200 (''/audio/'' @ outputFileName e) (outputFileName e))))"
    using assms(1)
    by (simp add: synthesize_response dispatch_edge edgeBranch_thrown
        split: option.splits sum.splits failure.splits)
  have dg: "dispatch e (r\<lparr>body_gender := g\<rparr>) text w1 = dispatch e r text w1"
    using assms(1) by (simp add: dispatch_edge)
  have gen: "fst (synthesize e (r\<lparr>body_gender := g\<rparr>) text w1) = fst (synthesize e r text w1)"
    "files (snd (synthesize e (r\<lparr>body_gender := g\<rparr>) text w1)) = files (snd (synthesize e r text w1))"
    by (simp_all add: synthesize_response synthesize_files dg)
  have k: "synthesize (e\<lparr>gtts := k\<rparr>) r text w1 = synthesize e r text w1"
    using assms(1) by (simp add: synthesize_def dispatch_edge Let_def split: prod.splits option.splits)
  show ?thesis
    by (simp only: c cg ck resp gen k simp_thms)
qed

text \<open>The request of C1 with the engine \<open>edge\<close>.\<close>

theorem convert_edge_voice_witness:
  "engine req_edge = ''edge''
   \<and> readInput env_ok world_empty req_edge = (Next ''Hello world'', world_empty)
   \<and> edgeTTS_synthesize env_ok ''Hello world'' (js_or (body_voice req_edge) ''en-US-AriaNeural'')
       = Inr ''edge:en:Hello world''
   \<and> fst (convert env_ok world_empty req_edge) =
       JsonSuccess 200 ''/audio/speech-1700000000123.mp3'' ''speech-1700000000123.mp3''
   \<and> fst (convert env_ok world_empty (req_edge\<lparr>body_gender := Some ''female''\<rparr>)) =
       fst (convert env_ok world_empty req_edge)"
proof -
  have h1: "engine req_edge = ''edge''"
    by (simp add: engine_def req_edge_def req_hello_def toLowerCase_def lower_char_def)
  have h2: "readInput env_ok world_empty req_edge = (Next ''Hello world'', world_empty)"
    by (simp add: readInput_def req_edge_def req_hello_def)
  have v: "js_or (body_voice req_edge) ''en-US-AriaNeural'' = ''en''"
    by (simp add: req_edge_def req_hello_def)
  from convert_edge_voice [OF h1 h2, of "Some ''female''"] h1 h2 show ?thesis
    by (simp add: v env_ok_fields env_ok_paths)
qed

text \<open>
  Claim C5 as stated says that the tables are never consulted for the edge engine.
  For the voice \<open>en\<close> and the gender \<open>male\<close> the console line printed before the
  dispatch carries the voice code \<open>en-us\<close>, which only the male table yields.
\<close>

theorem convert_edge_resolver_counterexample:
  "engine req_edge = ''edge'' \<and> body_voice req_edge = Some ''en''
   \<and> LogStarting 11 ''en'' ''male'' (JString ''en-us'')
        ''/app/public/audio/speech-1700000000123.mp3''
       \<in> set (console (snd (convert env_ok world_empty req_edge)))"
  by (simp add: handler_defs voice_defs example_facts)

subsection \<open>C6: the gender default\<close>

text \<open>
  Claim C6, as the code has it. A gender field that is absent or empty stands for
  \<open>male\<close>. A gender that is neither \<open>male\<close> nor \<open>female\<close> selects no table: the voice
  code is the requested voice, unchanged.
\<close>

theorem voiceCode_gender_default:
  "(body_gender r = None \<or> body_gender r = Some [] \<longrightarrow>
      voiceCode v (gender r) = voiceCode v ''male'')
   \<and> (gender r \<noteq> ''male'' \<and> gender r \<noteq> ''female'' \<longrightarrow> voiceCode v (gender r) = JString v)"
  by (auto simp: gender_def voiceCode_def)

text \<open>An absent gender with the voice \<open>en\<close>, and the gender \<open>robot\<close> with \<open>fr\<close>.\<close>

theorem voiceCode_gender_default_witness:
  "body_gender (req_hello\<lparr>body_gender := None\<rparr>) = None
   \<and> voiceCode ''en'' (gender (req_hello\<lparr>body_gender := None\<rparr>)) = JString ''en-us''
   \<and> gender (req_hello\<lparr>body_gender := Some ''robot''\<rparr>) \<noteq> ''male''
   \<and> gender (req_hello\<lparr>body_gender := Some ''robot''\<rparr>) \<noteq> ''female''
   \<and> voiceCode ''fr'' (gender (req_hello\<lparr>body_gender := Some ''robot''\<rparr>)) = JString ''fr''"
  using voiceCode_gender_default [of "req_hello\<lparr>body_gender := None\<rparr>" "''en''"]
    voiceCode_gender_default [of "req_hello\<lparr>body_gender := Some ''robot''\<rparr>" "''fr''"]
  by (simp add: gender_def voice_defs)

text \<open>
  Claim C6 as stated fails on the gender \<open>other\<close>: the voice \<open>en\<close> stays \<open>en\<close>, where
  the gender \<open>male\<close> gives \<open>en-us\<close>.
\<close>

theorem voiceCode_unrecognized_gender_counterexample:
  "gender (req_hello\<lparr>body_gender := Some ''other''\<rparr>) = ''other''
   \<and> voiceCode ''en'' (gender (req_hello\<lparr>body_gender := Some ''other''\<rparr>)) = JString ''en''
   \<and> voiceCode ''en'' ''male'' = JString ''en-us''"
  by (simp add: gender_def voice_defs)

subsection \<open>C7: failures of the dispatch\<close>

text \<open>
  Claim C7, as the code has it. When the dispatch throws (the engine or the write
  fails), the handler answers 500 with the fixed page "Error processing your
  request", never a success; the cause goes to the console only, as the last line.
  The files are those the failed operation left: nothing is removed, so a part of the
  audio written before the failure stays at the output path.
\<close>

theorem convert_failure:
  assumes "readInput e w r = (Next text, w1)" and "fst (dispatch e r text w1) = Some cause"
  shows "fst (convert e w r) = Send 500 processing_error_page
       \<and> last (console (snd (convert e w r))) = LogConversionError cause
       \<and> files (snd (convert e w r)) = files (snd (dispatch e r text w1))
       \<and> (\<exists>part. files (snd (convert e w r)) = files (leave (outputPath e) part w1))"
proof -
  have c: "convert e w r = synthesize e r text w1"
    using assms(1) by (simp add: convert_def)
  have "\<exists>part. files (snd (dispatch e r text w1)) = files (leave (outputPath e) part w1)"
    using dispatch_files [of e r "text" w1] by blast
  then show ?thesis
    using assms(2)
    by (simp add: c synthesize_response synthesize_files synthesize_console_error)
qed

text \<open>The gtts package fails with \<open>ECONNRESET\<close> after writing the bytes \<open>ID3\<close>.\<close>

theorem convert_failure_witness:
  "readInput (env_gtts_fails ''ECONNRESET'') world_empty req_hello
     = (Next ''Hello world'', world_empty)
   \<and> fst (dispatch (env_gtts_fails ''ECONNRESET'') req_hello ''Hello world'' world_empty)
     = Some ''ECONNRESET''
   \<and> fst (convert (env_gtts_fails ''ECONNRESET'') world_empty req_hello)
     = Send 500 processing_error_page
   \<and> last (console (snd (convert (env_gtts_fails ''ECONNRESET'') world_empty req_hello)))
     = LogConversionError ''ECONNRESET''
   \<and> files (snd (convert (env_gtts_fails ''ECONNRESET'') world_empty req_hello))
       ''/app/public/audio/speech-1700000000123.mp3'' = Some ''ID3''"
proof -
  have h1: "readInput (env_gtts_fails ''ECONNRESET'') world_empty req_hello
     = (Next ''Hello world'', world_empty)"
    by (simp add: readInput_def req_hello_def)
  have d: "dispatch (env_gtts_fails ''ECONNRESET'') req_hello ''Hello world'' world_empty
     = (Some ''ECONNRESET'',
        say (LogGttsSaveError ''ECONNRESET'')
          (leave ''/app/public/audio/speech-1700000000123.mp3'' (Some ''ID3'') world_empty))"
    by (simp add: dispatch_def gttsBranch_def engine_def toLowerCase_def lower_char_def example_facts)
  have h2: "fst (dispatch (env_gtts_fails ''ECONNRESET'') req_hello ''Hello world'' world_empty)
     = Some ''ECONNRESET''"
    by (simp add: d)
  from convert_failure [OF h1 h2] h1 h2 show ?thesis
    by (simp add: d leave_def)
qed

text \<open>
  Claim C7 as stated has the answer wrap the underlying cause. Two failures with
  different causes get the same answer, which therefore carries neither.
\<close>

theorem convert_failure_cause_counterexample:
  "''ECONNRESET'' \<noteq> ''ENOSPC''
   \<and> fst (convert (env_gtts_fails ''ECONNRESET'') world_empty req_hello)
       = Send 500 processing_error_page
   \<and> fst (convert (env_gtts_fails ''ENOSPC'') world_empty req_hello)
       = Send 500 processing_error_page"
  by (simp add: handler_defs example_facts)


subsection \<open>C8: the audio file after a success\<close>

lemma dispatch_edge_ok:
  assumes "engine r = ''edge''" and "fst (dispatch e r t w) = None"
  shows "\<exists>audio. edgeTTS_synthesize e t (js_or (body_voice r) ''en-US-AriaNeural'') = Inr audio
           \<and> writeFile e (outputPath e) audio = None
           \<and> files (snd (dispatch e r t w)) (outputPath e) = Some audio"
  using assms
  by (auto simp: dispatch_def edgeBranch_def Let_def say_def
      split: option.splits sum.splits failure.splits)

lemma dispatch_gtts_ok:
  assumes "engine r \<noteq> ''edge''" and "fst (dispatch e r t w) = None"
  shows "\<exists>saved. gtts e t (voiceCode (selectedVoice r) (gender r)) (outputPath e) = GttsSaved saved
           \<and> files (snd (dispatch e r t w)) (outputPath e) =
               (case saved of Some audio \<Rightarrow> Some audio | None \<Rightarrow> files w (outputPath e))"
  using assms
  by (auto simp: dispatch_def gttsBranch_def say_def leave_def
      split: gtts_outcome.splits option.splits)

lemma convert_frame:
  assumes "files w p \<noteq> None" and "\<forall>filename. req_file r = Some filename \<longrightarrow> p \<noteq> file_path e filename"
  shows "files (snd (convert e w r)) p \<noteq> None"
proof (cases "readInput e w r")
  case (Pair st w1)
  show ?thesis
  proof (cases st)
    case (Return resp)
    with Pair assms show ?thesis
      by (auto simp: convert_def dest: readInput_Return)
  next
    case (Throw err)
    with Pair have "w1 = w"
      by (auto simp: readInput_def readFile_def unlink_def split: option.splits sum.splits if_splits)
    with Pair Throw assms show ?thesis
      by (simp add: convert_def conversionError_def)
  next
    case (Next t)
    with Pair have c: "convert e w r = synthesize e r t w1"
      by (simp add: convert_def)
    from Pair Next assms have kept: "files w1 p \<noteq> None"
      by (auto dest!: readInput_Next)
    obtain part where "files (snd (dispatch e r t w1)) = files (leave (outputPath e) part w1)"
      using dispatch_files [of e r t w1] by blast
    with kept show ?thesis
      by (auto simp: c synthesize_files leave_def split: option.splits)
  qed
qed

text \<open>
  Claim C8, for the handler that returns a URL. Whenever it answers with a success
  \<open>{url, fileName}\<close>, the url is \<open>/audio/\<close> followed by the file name, which is
  \<open>speech-\<close>, the digits of the clock and \<open>.mp3\<close>, and the handler has removed nothing
  but the upload it read: every other file that was there is still there. The file of
  that name in the audio directory is as the engine left it. On the edge branch the
  handler wrote the audio there itself. On the gtts branch it holds what the package
  saved, and when the package saved nothing it is what it was before, absent if it was
  absent: the handler does not look.
\<close>

theorem convert_keeps_artifact:
  assumes "fst (convert e w r) = JsonSuccess n url fileName"
  shows "url = ''/audio/'' @ fileName \<and> fileName = ''speech-'' @ decimal (now e) @ ''.mp3''
       \<and> outputPath e = dirname e @ ''/public/audio/'' @ fileName
       \<and> (\<exists>text. fst (readInput e w r) = Next text
            \<and> (engine r = ''edge'' \<longrightarrow>
                 (\<exists>audio.
                     edgeTTS_synthesize e text (js_or (body_voice r) ''en-US-AriaNeural'')
                       = Inr audio
                   \<and> writeFile e (outputPath e) audio = None
                   \<and> files (snd (convert e w r)) (outputPath e) = Some audio))
            \<and> (engine r \<noteq> ''edge'' \<longrightarrow>
                 (\<exists>saved.
                     gtts e text (voiceCode (selectedVoice r) (gender r)) (outputPath e)
                       = GttsSaved saved
                   \<and> files (snd (convert e w r)) (outputPath e) =
                       (case saved of
                          Some audio \<Rightarrow> Some audio
                        | None \<Rightarrow> files w (outputPath e)))))
       \<and> (\<forall>p. files w p \<noteq> None \<longrightarrow>
              (\<exists>filename. req_file r = Some filename \<and> p = file_path e filename)
            \<or> files (snd (convert e w r)) p \<noteq> None)"
proof (cases "readInput e w r")
  case (Pair st w1)
  have frame: "\<forall>p. files w p \<noteq> None \<longrightarrow>
              (\<exists>filename. req_file r = Some filename \<and> p = file_path e filename)
            \<or> files (snd (convert e w r)) p \<noteq> None"
    using convert_frame [of w _ r e] by blast
  show ?thesis
  proof (cases st)
    case (Return resp)
    with Pair assms show ?thesis
      by (auto simp: convert_def dest: readInput_Return)
  next
    case (Throw err)
    with Pair assms show ?thesis
      by (simp add: convert_def conversionError_def)
  next
    case (Next t)
    with Pair have c: "convert e w r = synthesize e r t w1"
      and ri: "fst (readInput e w r) = Next t"
      by (simp_all add: convert_def)
    from assms have ok: "fst (dispatch e r t w1) = None"
      and names: "url = ''/audio/'' @ outputFileName e" "fileName = outputFileName e"
      by (auto simp: c synthesize_response split: option.splits)
    have before: "files w1 (outputPath e) = files w (outputPath e)"
      using Pair Next
      by (auto dest!: readInput_Next
          simp: file_path_neq_outputPath file_path_neq_outputPath [symmetric])
    have edge: "engine r = ''edge'' \<longrightarrow>
        (\<exists>audio. edgeTTS_synthesize e t (js_or (body_voice r) ''en-US-AriaNeural'') = Inr audio
           \<and> writeFile e (outputPath e) audio = None
           \<and> files (snd (convert e w r)) (outputPath e) = Some audio)"
      using dispatch_edge_ok [OF _ ok] by (simp add: c synthesize_files)
    have gt: "engine r \<noteq> ''edge'' \<longrightarrow>
        (\<exists>saved. gtts e t (voiceCode (selectedVoice r) (gender r)) (outputPath e) = GttsSaved saved
           \<and> files (snd (convert e w r)) (outputPath e) =
               (case saved of Some audio \<Rightarrow> Some audio | None \<Rightarrow> files w (outputPath e)))"
    proof
      assume ne: "engine r \<noteq> ''edge''"
      from dispatch_gtts_ok [OF ne ok] obtain saved where
        g: "gtts e t (voiceCode (selectedVoice r) (gender r)) (outputPath e) = GttsSaved saved"
        and f: "files (snd (dispatch e r t w1)) (outputPath e) =
               (case saved of Some audio \<Rightarrow> Some audio | None \<Rightarrow> files w1 (outputPath e))"
        by blast
      from f have "files (snd (convert e w r)) (outputPath e) =
               (case saved of Some audio \<Rightarrow> Some audio | None \<Rightarrow> files w (outputPath e))"
        by (cases saved) (simp_all add: c synthesize_files before)
      with g show "\<exists>saved.
          gtts e t (voiceCode (selectedVoice r) (gender r)) (outputPath e) = GttsSaved saved
           \<and> files (snd (convert e w r)) (outputPath e) =
               (case saved of Some audio \<Rightarrow> Some audio | None \<Rightarrow> files w (outputPath e))"
        by blast
    qed
    have path: "outputPath e = dirname e @ ''/public/audio/'' @ fileName"
      by (simp add: names path_defs)
    have nm: "fileName = ''speech-'' @ decimal (now e) @ ''.mp3''"
      by (simp add: names outputFileName_def)
    from ri edge gt have ex: "\<exists>text. fst (readInput e w r) = Next text
            \<and> (engine r = ''edge'' \<longrightarrow>
                 (\<exists>audio.
                     edgeTTS_synthesize e text (js_or (body_voice r) ''en-US-AriaNeural'')
                       = Inr audio
                   \<and> writeFile e (outputPath e) audio = None
                   \<and> files (snd (convert e w r)) (outputPath e) = Some audio))
            \<and> (engine r \<noteq> ''edge'' \<longrightarrow>
                 (\<exists>saved.
                     gtts e text (voiceCode (selectedVoice r) (gender r)) (outputPath e)
                       = GttsSaved saved
                   \<and> files (snd (convert e w r)) (outputPath e) =
                       (case saved of
                          Some audio \<Rightarrow> Some audio
                        | None \<Rightarrow> files w (outputPath e))))"
      by blast
    have u: "url = ''/audio/'' @ fileName"
      by (simp add: names)
    from u nm path ex frame show ?thesis
      by (intro conjI)
  qed
qed

text \<open>
  A success of the edge engine, and a success of the gtts engine that saves nothing
  while a file of that name is in the audio directory: the file stays.
\<close>

theorem convert_keeps_artifact_witness:
  "fst (convert env_ok world_empty req_edge) =
     JsonSuccess 200 ''/audio/speech-1700000000123.mp3'' ''speech-1700000000123.mp3''
   \<and> engine req_edge = ''edge''
   \<and> files (snd (convert env_ok world_empty req_edge))
       ''/app/public/audio/speech-1700000000123.mp3'' = Some ''edge:en:Hello world''
   \<and> fst (convert env_gtts_silent world_collision req_hello) =
     JsonSuccess 200 ''/audio/speech-1700000000123.mp3'' ''speech-1700000000123.mp3''
   \<and> engine req_hello \<noteq> ''edge''
   \<and> files world_collision ''/app/public/audio/speech-1700000000123.mp3'' \<noteq> None
   \<and> files (snd (convert env_gtts_silent world_collision req_hello))
       ''/app/public/audio/speech-1700000000123.mp3'' = Some ''earlier audio''"
proof -
  have h1: "fst (convert env_ok world_empty req_edge) =
     JsonSuccess 200 ''/audio/speech-1700000000123.mp3'' ''speech-1700000000123.mp3''"
    by (simp add: handler_defs example_facts)
  have h2: "fst (convert env_gtts_silent world_collision req_hello) =
     JsonSuccess 200 ''/audio/speech-1700000000123.mp3'' ''speech-1700000000123.mp3''"
    by (simp add: handler_defs example_facts)
  have e1: "engine req_edge = ''edge''" and e2: "engine req_hello \<noteq> ''edge''"
    by (simp_all add: engine_def req_edge_def req_hello_def toLowerCase_def lower_char_def)
  have t1: "fst (readInput env_ok world_empty req_edge) = Next ''Hello world''"
    and t2: "fst (readInput env_gtts_silent world_collision req_hello) = Next ''Hello world''"
    by (simp_all add: readInput_def req_edge_def req_hello_def)
  have v: "js_or (body_voice req_edge) ''en-US-AriaNeural'' = ''en''"
    by (simp add: req_edge_def req_hello_def)
  have old: "files world_collision ''/app/public/audio/speech-1700000000123.mp3''
      = Some ''earlier audio''"
    by (simp add: world_collision_def)
  have a1: "files (snd (convert env_ok world_empty req_edge)) (outputPath env_ok)
      = Some ''edge:en:Hello world''"
    using convert_keeps_artifact
      [OF h1, THEN conjunct2, THEN conjunct2, THEN conjunct2, THEN conjunct1] e1
    by (auto simp: t1 v env_ok_fields)
  have a2: "files (snd (convert env_gtts_silent world_collision req_hello))
      (outputPath env_gtts_silent) = Some ''earlier audio''"
    using convert_keeps_artifact
      [OF h2, THEN conjunct2, THEN conjunct2, THEN conjunct2, THEN conjunct1] e2
    by (auto simp: t2 env_gtts_silent_fields env_gtts_silent_paths old)
  from a1 a2 h1 h2 e1 e2 old show ?thesis
    by (simp add: env_ok_paths env_gtts_silent_paths)
qed

text \<open>
  Claim C8 as stated fails on the handler of \<open>server.js\<close>: after a conversion that
  succeeds and is sent, the audio file is gone. It also fails on the handler that
  returns a URL when the gtts package calls back without an error and has written
  nothing: the answer is a success and no file of the name it gives exists.
\<close>

theorem convert_artifact_missing_counterexample:
  "fst (convert_server_js env_ok world_empty req_hello) =
     SendFile ''/app/public/audio/speech-1700000000123.mp3''
   \<and> files (snd (convert_server_js env_ok world_empty req_hello))
       ''/app/public/audio/speech-1700000000123.mp3'' = None
   \<and> fst (convert env_gtts_silent world_empty req_blank) =
     JsonSuccess 200 ''/audio/speech-1700000000123.mp3'' ''speech-1700000000123.mp3''
   \<and> files (snd (convert env_gtts_silent world_empty req_blank))
       ''/app/public/audio/speech-1700000000123.mp3'' = None"
  by (simp add: convert_server_js_def handler_defs example_facts)

subsection \<open>C9: the uploaded file is read and removed\<close>

text \<open>
  Claim C9. When the request carries an uploaded file that exists, the input stage
  yields the whole content of the file as the text and leaves a world without the
  file, before anything is synthesized; and the file is absent from the world the
  handler leaves, whatever the engine did.
\<close>

theorem convert_deletes_upload:
  assumes "req_file r = Some filename" and "files w (file_path e filename) = Some content"
  shows "readInput e w r = (Next content, w\<lparr>files := (files w)(file_path e filename := None)\<rparr>)
       \<and> files (snd (convert e w r)) (file_path e filename) = None"
proof -
  let ?w1 = "w\<lparr>files := (files w)(file_path e filename := None)\<rparr>"
  have ri: "readInput e w r = (Next content, ?w1)"
    using assms by (simp add: readInput_def readFile_def unlink_def)
  then have c: "convert e w r = synthesize e r content ?w1"
    by (simp add: convert_def)
  obtain part where "files (snd (dispatch e r content ?w1)) = files (leave (outputPath e) part ?w1)"
    using dispatch_files [of e r content ?w1] by blast
  then have "files (snd (convert e w r)) (file_path e filename) = files ?w1 (file_path e filename)"
    by (simp add: c synthesize_files leave_other file_path_neq_outputPath)
  with ri show ?thesis by simp
qed

text \<open>The upload \<open>1700000000000-note.txt\<close>.\<close>

theorem convert_deletes_upload_witness:
  "req_file req_upload = Some ''1700000000000-note.txt''
   \<and> files world_upload (file_path env_ok ''1700000000000-note.txt'') = Some ''from the file''
   \<and> fst (readInput env_ok world_upload req_upload) = Next ''from the file''
   \<and> files (snd (convert env_ok world_upload req_upload))
       ''/app/uploads/1700000000000-note.txt'' = None"
proof -
  have h1: "req_file req_upload = Some ''1700000000000-note.txt''"
    by (simp add: req_upload_def req_hello_def)
  have h2: "files world_upload (file_path env_ok ''1700000000000-note.txt'') = Some ''from the file''"
    by (simp add: world_upload_def env_ok_paths)
  from convert_deletes_upload [OF h1 h2] h1 h2 show ?thesis
    by (simp add: env_ok_paths)
qed

subsection \<open>C10: the file comes before the text field\<close>

lemma edgeBranch_textInput:
  "edgeBranch e (r\<lparr>body_textInput := x\<rparr>) t w = edgeBranch e r t w"
  by (simp add: edgeBranch_def split: option.splits)

lemma dispatch_textInput:
  "dispatch e (r\<lparr>body_textInput := x\<rparr>) t w = dispatch e r t w"
  by (simp add: dispatch_def edgeBranch_textInput engine_def selectedVoice_def gender_def)

lemma synthesize_textInput:
  "synthesize e (r\<lparr>body_textInput := x\<rparr>) t w = synthesize e r t w"
  by (simp add: synthesize_def dispatch_textInput selectedVoice_def gender_def)

text \<open>
  Claim C10. When the request carries an uploaded file, the text field has no effect
  on the answer or on the world left, whatever it holds; and the text handed on is
  the content of the file.
\<close>

theorem convert_file_precedence:
  assumes "req_file r = Some filename"
  shows "convert e w (r\<lparr>body_textInput := inline\<rparr>) = convert e w r
       \<and> (files w (file_path e filename) = Some content \<longrightarrow>
            fst (readInput e w (r\<lparr>body_textInput := inline\<rparr>)) = Next content)"
proof -
  have ri: "readInput e w (r\<lparr>body_textInput := inline\<rparr>) = readInput e w r"
    using assms by (simp add: readInput_def)
  have "files w (file_path e filename) = Some content \<longrightarrow> fst (readInput e w r) = Next content"
    using assms by (simp add: readInput_def readFile_def unlink_def)
  then show ?thesis
    by (simp add: convert_def ri synthesize_textInput split: prod.splits step.splits)
qed

text \<open>The upload together with the text field \<open>Hello world\<close>.\<close>

theorem convert_file_precedence_witness:
  "req_file req_upload = Some ''1700000000000-note.txt''
   \<and> body_textInput req_upload = Some ''Hello world''
   \<and> convert env_ok world_upload req_upload
       = convert env_ok world_upload (req_upload\<lparr>body_textInput := None\<rparr>)
   \<and> fst (readInput env_ok world_upload req_upload) = Next ''from the file''
   \<and> files (snd (convert env_ok world_upload req_upload))
       ''/app/public/audio/speech-1700000000123.mp3'' = Some ''gtts:from the file''"
proof -
  have h: "req_file (req_upload\<lparr>body_textInput := None\<rparr>) = Some ''1700000000000-note.txt''"
    by (simp add: req_upload_def req_hello_def)
  have same: "req_upload\<lparr>body_textInput := None, body_textInput := Some ''Hello world''\<rparr> = req_upload"
    by (simp add: req_upload_def req_hello_def)
  have f: "files world_upload (file_path env_ok ''1700000000000-note.txt'') = Some ''from the file''"
    by (simp add: world_upload_def env_ok_paths)
  have out: "files (snd (convert env_ok world_upload req_upload))
       ''/app/public/audio/speech-1700000000123.mp3'' = Some ''gtts:from the file''"
    by (simp add: handler_defs example_facts)
  from convert_file_precedence [OF h, of env_ok world_upload "Some ''Hello world''" "''from the file''"]
    f out show ?thesis
    by (simp add: same) (simp add: req_upload_def req_hello_def)
qed

end
